theory Spec2Isabelle
  imports Complex_Main
begin

section \<open>Technical indicators and the composite rating of \<open>src/hooks/useStockData.ts\<close>\<close>

text \<open>
  The source computes on JavaScript numbers. A number is modelled as a \<open>real\<close>: the
  literals \<open>0.9\<close>, \<open>1.02\<close>, \<open>0.98\<close> are the decimals they denote and every operation is
  exact. A division whose divisor is zero leaves the reals (JavaScript answers \<open>NaN\<close> or an
  infinity), so a function of the source that divides returns an \<open>option\<close>, and \<open>None\<close>
  stands for a result that is no finite number. A \<open>period\<close> is a natural number, as at every
  call in the source (12, 14, 20, 26, 50, 200). A default argument (\<open>period = 14\<close> of
  \<open>calculateRSI\<close>, \<open>period = 20\<close> and \<open>multiplier = 2\<close> of \<open>calculateBollingerBands\<close>) is
  written out where the function is applied.
\<close>

subsection \<open>JavaScript primitives\<close>

definition jdiv :: "real \<Rightarrow> real \<Rightarrow> real option" where
  \<comment> \<open>\<open>a / b\<close>\<close>
  "jdiv a b = (if b = 0 then None else Some (a / b))"

definition js_or :: "real \<Rightarrow> real \<Rightarrow> real" where
  \<comment> \<open>\<open>a || b\<close> on numbers: \<open>0\<close> is falsy\<close>
  "js_or a b = (if a = 0 then b else a)"

definition js_round :: "real \<Rightarrow> real" where
  \<comment> \<open>\<open>Math.round\<close>: the nearest integer, a tie going up\<close>
  "js_round x = of_int \<lfloor>x + 1 / 2\<rfloor>"

definition slice_last :: "'a list \<Rightarrow> nat \<Rightarrow> 'a list" where
  \<comment> \<open>\<open>xs.slice(-n)\<close>; \<open>-0\<close> is \<open>0\<close>, so \<open>n = 0\<close> keeps the whole array\<close>
  "slice_last xs n = (if n = 0 then xs else drop (length xs - n) xs)"

definition last_or_zero :: "real list \<Rightarrow> real" where
  \<comment> \<open>\<open>prices[prices.length - 1] || 0\<close>: the read is \<open>undefined\<close> on an empty array\<close>
  "last_or_zero prices = (case prices of [] \<Rightarrow> 0 | _ # _ \<Rightarrow> js_or (last prices) 0)"

subsection \<open>Moving averages\<close>

definition calculateSMA :: "real list \<Rightarrow> nat \<Rightarrow> real option" where
  "calculateSMA prices period =
     (if length prices < period then Some (last_or_zero prices)
      else jdiv (foldl (\<lambda>sum price. sum + price) 0 (slice_last prices period)) (real period))"

fun ema_loop :: "real \<Rightarrow> real \<Rightarrow> real list \<Rightarrow> real" where
  \<comment> \<open>the \<open>for\<close> loop of \<open>calculateEMA\<close> over \<open>prices[1..]\<close>\<close>
  "ema_loop multiplier ema [] = ema"
| "ema_loop multiplier ema (p # ps) =
     ema_loop multiplier (p * multiplier + ema * (1 - multiplier)) ps"

definition calculateEMA :: "real list \<Rightarrow> nat \<Rightarrow> real option" where
  \<comment> \<open>\<open>prices[0]\<close> of an empty array is \<open>undefined\<close>, which the function then returns\<close>
  "calculateEMA prices period =
     (if length prices < period then Some (last_or_zero prices)
      else case jdiv 2 (real period + 1) of
             None \<Rightarrow> None
           | Some multiplier \<Rightarrow>
               (case prices of
                  [] \<Rightarrow> None
                | p0 # rest \<Rightarrow> Some (ema_loop multiplier p0 rest)))"

subsection \<open>MACD\<close>

record macd =
  "value" :: real
  signal :: real
  histogram :: real

definition calculateMACD :: "real list \<Rightarrow> macd option" where
  "calculateMACD prices =
     (if length prices < 26 then Some \<lparr>value = 0, signal = 0, histogram = 0\<rparr>
      else case calculateEMA prices 12 of
             None \<Rightarrow> None
           | Some ema12 \<Rightarrow>
               (case calculateEMA prices 26 of
                  None \<Rightarrow> None
                | Some ema26 \<Rightarrow>
                    (let macdLine = ema12 - ema26;
                         signalLine = macdLine * (9 / 10)
                     in Some \<lparr>value = macdLine, signal = signalLine,
                               histogram = macdLine - signalLine\<rparr>)))"

subsection \<open>RSI\<close>

definition deltas :: "real list \<Rightarrow> real list" where
  \<comment> \<open>\<open>prices[i] - prices[i - 1]\<close> for \<open>i = 1, ..., prices.length - 1\<close>\<close>
  "deltas prices = map (\<lambda>(prev, cur). cur - prev) (zip prices (tl prices))"






subsection \<open>Bollinger bands\<close>

record bollinger =
  upper :: real
  middle :: real
  lower :: real

definition calculateBollingerBands :: "real list \<Rightarrow> nat \<Rightarrow> real \<Rightarrow> bollinger option" where
  "calculateBollingerBands prices period multiplier =
     (case calculateSMA prices period of
        None \<Rightarrow> None
      | Some sma \<Rightarrow>
          (if length prices < period
           then Some \<lparr>upper = sma * (102 / 100), middle = sma, lower = sma * (98 / 100)\<rparr>
           else case jdiv (foldl (\<lambda>sum price. sum + (price - sma)\<^sup>2) 0
                             (slice_last prices period)) (real period) of
                  None \<Rightarrow> None
                | Some variance \<Rightarrow>
                    (let stdDev = sqrt variance
                     in Some \<lparr>upper = sma + stdDev * multiplier, middle = sma,
                               lower = sma - stdDev * multiplier\<rparr>)))"

subsection \<open>The rating: \<open>generateAIAnalysis\<close>\<close>

text \<open>
  The two arguments are read as records of numbers; only the fields the function reads are
  kept. \<open>Math.random()\<close> is a draw from a generator whose state is threaded through: \<open>draw\<close>
  maps a state to the number drawn and the next state. \<open>toFixed\<close> is the platform's number
  formatting, a parameter of the model; its argument is \<open>None\<close> when the number is not
  finite.
\<close>

datatype rating = StrongBuy | Buy | Hold | Sell | StrongSell

datatype risk = Low | Medium | High

datatype trend = Bullish | Bearish | Neutral

datatype sentiment_label = VeryPositive | Positive | NeutralSentiment | Negative | VeryNegative

record stock_data =
  currentPrice :: real
  changePercent :: real
  volume :: real
  high52Week :: real
  low52Week :: real

record technical_indicators =
  rsi :: real
  sma20 :: real
  sma50 :: real
  sma200 :: real
  avgVolume :: real

record sentiment =
  score :: real
  label :: sentiment_label

record ai_analysis =
  overallRating :: rating
  confidence :: real
  riskLevel :: risk
  priceTarget :: real
  keyFactors :: "string list"
  sentiment :: sentiment
  technicalScore :: real
  fundamentalScore :: real
  marketScore :: real

fun trend_text :: "trend \<Rightarrow> string" where
  "trend_text Bullish = ''bullish''"
| "trend_text Bearish = ''bearish''"
| "trend_text Neutral = ''neutral''"

definition score_and_trend :: "stock_data \<Rightarrow> technical_indicators \<Rightarrow> real \<times> trend" where
  \<comment> \<open>the variables \<open>technicalScore\<close> and \<open>trend\<close> after the RSI and the moving average
      analysis; the score is not clamped\<close>
  "score_and_trend data ti =
     (let st = (50, Neutral);
          st = (if rsi ti < 30 then (fst st + 20, Bullish)
                else if rsi ti > 70 then (fst st - 20, Bearish)
                else st);
          st = (if currentPrice data > sma20 ti \<and> sma20 ti > sma50 ti \<and> sma50 ti > sma200 ti
                then (fst st + 25, Bullish)
                else if currentPrice data < sma20 ti \<and> sma20 ti < sma50 ti
                        \<and> sma50 ti < sma200 ti
                then (fst st - 25, Bearish)
                else st)
      in st)"

definition rating_of :: "real \<Rightarrow> rating" where
  \<comment> \<open>"Determine overall rating"\<close>
  "rating_of s =
     (if s \<ge> 80 then StrongBuy
      else if s \<ge> 65 then Buy
      else if s \<ge> 35 then Hold
      else if s \<ge> 20 then Sell
      else StrongSell)"

definition risk_of :: "real \<Rightarrow> risk" where
  \<comment> \<open>"Determine risk level"\<close>
  "risk_of cp =
     (if cp > 5 \<or> cp < - 5 then High
      else if \<bar>cp\<bar> > 2 then Medium
      else Low)"

definition label_of :: "real \<Rightarrow> sentiment_label" where
  "label_of s =
     (if s \<ge> 80 then VeryPositive
      else if s \<ge> 60 then Positive
      else if s \<ge> 40 then NeutralSentiment
      else if s \<ge> 20 then Negative
      else VeryNegative)"

definition keyFactors_of ::
  "(real option \<Rightarrow> nat \<Rightarrow> string) \<Rightarrow> stock_data \<Rightarrow> technical_indicators \<Rightarrow> trend
     \<Rightarrow> string list" where
  "keyFactors_of toFixed data ti tr =
     [ ''RSI at '' @ toFixed (Some (rsi ti)) 1 @ '' indicates ''
         @ (if rsi ti < 30 then ''oversold'' else if rsi ti > 70 then ''overbought''
            else ''neutral'')
         @ '' conditions'',
       ''Price is '' @ (if currentPrice data > sma20 ti then ''above'' else ''below'')
         @ '' 20-day moving average ('' @ toFixed (Some (sma20 ti)) 2 @ '')'',
       ''Current trend shows '' @ trend_text tr @ '' momentum based on technical analysis'',
       ''Volume analysis suggests ''
         @ (if volume data > avgVolume ti then ''increased'' else ''decreased'')
         @ '' institutional interest'',
       ''52-week range positioning indicates ''
         @ toFixed (map_option (\<lambda>q. q * 100)
              (jdiv (currentPrice data - low52Week data) (high52Week data - low52Week data))) 1
         @ ''% of range'' ]"

definition generateAIAnalysis ::
  "('s \<Rightarrow> real \<times> 's) \<Rightarrow> (real option \<Rightarrow> nat \<Rightarrow> string) \<Rightarrow> stock_data
     \<Rightarrow> technical_indicators \<Rightarrow> 's \<Rightarrow> ai_analysis \<times> 's" where
  "generateAIAnalysis draw toFixed data ti s0 =
     (case score_and_trend data ti of
        (ts, tr) \<Rightarrow>
          (case draw s0 of
             (r1, s1) \<Rightarrow>
               (case draw s1 of
                  (r2, s2) \<Rightarrow>
                    (\<lparr>overallRating = rating_of ts,
                      confidence = min (max ts 20) 95,
                      riskLevel = risk_of (changePercent data),
                      priceTarget = currentPrice data * (1 + (ts - 50) / 200),
                      keyFactors = keyFactors_of toFixed data ti tr,
                      sentiment = \<lparr>score = ts, label = label_of ts\<rparr>,
                      technicalScore = js_round ts,
                      fundamentalScore = js_round (ts * (9 / 10) + r1 * 20),
                      marketScore = js_round (ts * (11 / 10) + r2 * 15)\<rparr>, s2))))"

subsection \<open>The prediction block of \<open>fetchStockData\<close>\<close>

record prediction =
  nextDay :: real
  nextWeek :: real
  nextMonth :: real
  predictionConfidence :: real
  predictionTrend :: trend

definition makePrediction ::
  "('s \<Rightarrow> real \<times> 's) \<Rightarrow> real \<Rightarrow> technical_indicators \<Rightarrow> ai_analysis \<Rightarrow> 's
     \<Rightarrow> prediction \<times> 's" where
  \<comment> \<open>the object literal \<open>prediction\<close>; its fields \<open>confidence\<close> and \<open>trend\<close> carry a prefix
      here, the names being taken\<close>
  "makePrediction draw price ti aiAnalysis s0 =
     (case draw s0 of
        (r1, s1) \<Rightarrow>
          (case draw s1 of
             (r2, s2) \<Rightarrow>
               (case draw s2 of
                  (r3, s3) \<Rightarrow>
                    (\<lparr>nextDay = price * (1 + (r1 - 1 / 2) * (3 / 100)),
                      nextWeek = price * (1 + (rsi ti - 50) / 1000 + (r2 - 1 / 2) * (5 / 100)),
                      nextMonth = price * (1 + (rsi ti - 50) / 500 + (r3 - 1 / 2) * (1 / 10)),
                      predictionConfidence = confidence aiAnalysis,
                      predictionTrend =
                        (if score (sentiment aiAnalysis) \<ge> 60 then Bullish
                         else if score (sentiment aiAnalysis) \<le> 40 then Bearish
                         else Neutral)\<rparr>, s3))))"

definition analysisAndPrediction ::
  "('s \<Rightarrow> real \<times> 's) \<Rightarrow> (real option \<Rightarrow> nat \<Rightarrow> string) \<Rightarrow> stock_data
     \<Rightarrow> technical_indicators \<Rightarrow> 's \<Rightarrow> (ai_analysis \<times> prediction) \<times> 's" where
  \<comment> \<open>\<open>fetchStockData\<close> from "Generate AI analysis" to the prediction: both computations
      draw from the one generator, the analysis first\<close>
  "analysisAndPrediction draw toFixed data ti s0 =
     (case generateAIAnalysis draw toFixed data ti s0 of
        (aiAnalysis, s1) \<Rightarrow>
          (case makePrediction draw (currentPrice data) ti aiAnalysis s1 of
             (prediction, s2) \<Rightarrow> ((aiAnalysis, prediction), s2)))"

section \<open>Properties of the rating\<close>

lemma ga_fields:
  "overallRating (fst (generateAIAnalysis draw toFixed data ti s0))
     = rating_of (fst (score_and_trend data ti))"
  "confidence (fst (generateAIAnalysis draw toFixed data ti s0))
     = min (max (fst (score_and_trend data ti)) 20) 95"
  "sentiment (fst (generateAIAnalysis draw toFixed data ti s0))
     = \<lparr>score = fst (score_and_trend data ti), label = label_of (fst (score_and_trend data ti))\<rparr>"
  "technicalScore (fst (generateAIAnalysis draw toFixed data ti s0))
     = js_round (fst (score_and_trend data ti))"
  by (simp_all add: generateAIAnalysis_def split: prod.splits)

lemma score_decomposed:
  "fst (score_and_trend data ti) =
     50 + (if rsi ti < 30 then 20 else if rsi ti > 70 then - 20 else 0)
        + (if currentPrice data > sma20 ti \<and> sma20 ti > sma50 ti \<and> sma50 ti > sma200 ti then 25
           else if currentPrice data < sma20 ti \<and> sma20 ti < sma50 ti \<and> sma50 ti < sma200 ti
           then - 25 else 0)"
  by (simp add: score_and_trend_def Let_def)

lemma score_values:
  "fst (score_and_trend data ti) \<in> {5, 25, 30, 45, 50, 55, 70, 75, 95}"
  by (simp add: score_and_trend_def Let_def)

text \<open>Each of the nine scores is taken: three RSI readings against three orderings.\<close>

lemma sample_scores:
  "fst (score_and_trend
          \<lparr>currentPrice = 4, changePercent = 0, volume = 0, high52Week = 0, low52Week = 0\<rparr>
          \<lparr>rsi = 20, sma20 = 3, sma50 = 2, sma200 = 1, avgVolume = 0\<rparr>) = 95"
  "fst (score_and_trend
          \<lparr>currentPrice = 1, changePercent = 0, volume = 0, high52Week = 0, low52Week = 0\<rparr>
          \<lparr>rsi = 20, sma20 = 1, sma50 = 1, sma200 = 1, avgVolume = 0\<rparr>) = 70"
  "fst (score_and_trend
          \<lparr>currentPrice = 1, changePercent = 0, volume = 0, high52Week = 0, low52Week = 0\<rparr>
          \<lparr>rsi = 20, sma20 = 2, sma50 = 3, sma200 = 4, avgVolume = 0\<rparr>) = 45"
  "fst (score_and_trend
          \<lparr>currentPrice = 4, changePercent = 0, volume = 0, high52Week = 0, low52Week = 0\<rparr>
          \<lparr>rsi = 50, sma20 = 3, sma50 = 2, sma200 = 1, avgVolume = 0\<rparr>) = 75"
  "fst (score_and_trend
          \<lparr>currentPrice = 1, changePercent = 0, volume = 0, high52Week = 0, low52Week = 0\<rparr>
          \<lparr>rsi = 50, sma20 = 1, sma50 = 1, sma200 = 1, avgVolume = 0\<rparr>) = 50"
  "fst (score_and_trend
          \<lparr>currentPrice = 1, changePercent = 0, volume = 0, high52Week = 0, low52Week = 0\<rparr>
          \<lparr>rsi = 50, sma20 = 2, sma50 = 3, sma200 = 4, avgVolume = 0\<rparr>) = 25"
  "fst (score_and_trend
          \<lparr>currentPrice = 4, changePercent = 0, volume = 0, high52Week = 0, low52Week = 0\<rparr>
          \<lparr>rsi = 80, sma20 = 3, sma50 = 2, sma200 = 1, avgVolume = 0\<rparr>) = 55"
  "fst (score_and_trend
          \<lparr>currentPrice = 1, changePercent = 0, volume = 0, high52Week = 0, low52Week = 0\<rparr>
          \<lparr>rsi = 80, sma20 = 1, sma50 = 1, sma200 = 1, avgVolume = 0\<rparr>) = 30"
  "fst (score_and_trend
          \<lparr>currentPrice = 1, changePercent = 0, volume = 0, high52Week = 0, low52Week = 0\<rparr>
          \<lparr>rsi = 80, sma20 = 2, sma50 = 3, sma200 = 4, avgVolume = 0\<rparr>) = 5"
  by (simp_all add: score_and_trend_def Let_def)

lemma every_label_reached:
  "\<exists>data ti. label_of (fst (score_and_trend data ti)) = l"
proof (cases l)
  case VeryPositive
  then show ?thesis
    by (intro exI[of _ "\<lparr>currentPrice = 4, changePercent = 0, volume = 0, high52Week = 0, low52Week = 0\<rparr>"]
              exI[of _ "\<lparr>rsi = 20, sma20 = 3, sma50 = 2, sma200 = 1, avgVolume = 0\<rparr>"])
       (simp add: sample_scores label_of_def)
next
  case Positive
  then show ?thesis
    by (intro exI[of _ "\<lparr>currentPrice = 1, changePercent = 0, volume = 0, high52Week = 0, low52Week = 0\<rparr>"]
              exI[of _ "\<lparr>rsi = 20, sma20 = 1, sma50 = 1, sma200 = 1, avgVolume = 0\<rparr>"])
       (simp add: sample_scores label_of_def)
next
  case NeutralSentiment
  then show ?thesis
    by (intro exI[of _ "\<lparr>currentPrice = 1, changePercent = 0, volume = 0, high52Week = 0, low52Week = 0\<rparr>"]
              exI[of _ "\<lparr>rsi = 50, sma20 = 1, sma50 = 1, sma200 = 1, avgVolume = 0\<rparr>"])
       (simp add: sample_scores label_of_def)
next
  case Negative
  then show ?thesis
    by (intro exI[of _ "\<lparr>currentPrice = 1, changePercent = 0, volume = 0, high52Week = 0, low52Week = 0\<rparr>"]
              exI[of _ "\<lparr>rsi = 80, sma20 = 1, sma50 = 1, sma200 = 1, avgVolume = 0\<rparr>"])
       (simp add: sample_scores label_of_def)
next
  case VeryNegative
  then show ?thesis
    by (intro exI[of _ "\<lparr>currentPrice = 1, changePercent = 0, volume = 0, high52Week = 0, low52Week = 0\<rparr>"]
              exI[of _ "\<lparr>rsi = 80, sma20 = 2, sma50 = 3, sma200 = 4, avgVolume = 0\<rparr>"])
       (simp add: sample_scores label_of_def)
qed

lemma every_rating_reached:
  "\<exists>data ti. rating_of (fst (score_and_trend data ti)) = r"
proof (cases r)
  case StrongBuy
  then show ?thesis
    by (intro exI[of _ "\<lparr>currentPrice = 4, changePercent = 0, volume = 0, high52Week = 0, low52Week = 0\<rparr>"]
              exI[of _ "\<lparr>rsi = 20, sma20 = 3, sma50 = 2, sma200 = 1, avgVolume = 0\<rparr>"])
       (simp add: sample_scores rating_of_def)
next
  case Buy
  then show ?thesis
    by (intro exI[of _ "\<lparr>currentPrice = 1, changePercent = 0, volume = 0, high52Week = 0, low52Week = 0\<rparr>"]
              exI[of _ "\<lparr>rsi = 20, sma20 = 1, sma50 = 1, sma200 = 1, avgVolume = 0\<rparr>"])
       (simp add: sample_scores rating_of_def)
next
  case Hold
  then show ?thesis
    by (intro exI[of _ "\<lparr>currentPrice = 1, changePercent = 0, volume = 0, high52Week = 0, low52Week = 0\<rparr>"]
              exI[of _ "\<lparr>rsi = 50, sma20 = 1, sma50 = 1, sma200 = 1, avgVolume = 0\<rparr>"])
       (simp add: sample_scores rating_of_def)
next
  case Sell
  then show ?thesis
    by (intro exI[of _ "\<lparr>currentPrice = 1, changePercent = 0, volume = 0, high52Week = 0, low52Week = 0\<rparr>"]
              exI[of _ "\<lparr>rsi = 80, sma20 = 1, sma50 = 1, sma200 = 1, avgVolume = 0\<rparr>"])
       (simp add: sample_scores rating_of_def)
next
  case StrongSell
  then show ?thesis
    by (intro exI[of _ "\<lparr>currentPrice = 1, changePercent = 0, volume = 0, high52Week = 0, low52Week = 0\<rparr>"]
              exI[of _ "\<lparr>rsi = 80, sma20 = 2, sma50 = 3, sma200 = 4, avgVolume = 0\<rparr>"])
       (simp add: sample_scores rating_of_def)
qed

text \<open>
  C1. The overall rating is read off the score by five bands, each closed below and open
  above: from 80 Strong Buy, from 65 Buy, from 35 Hold, from 20 Sell, below 20 Strong Sell.
  The bands are stated as equivalences, so a score lies in one band and no other; the rating
  of \<open>generateAIAnalysis\<close> is this mapping at the unclamped score.
\<close>

theorem rating_bands:
  "(rating_of s = StrongBuy \<longleftrightarrow> 80 \<le> s) \<and>
   (rating_of s = Buy \<longleftrightarrow> 65 \<le> s \<and> s < 80) \<and>
   (rating_of s = Hold \<longleftrightarrow> 35 \<le> s \<and> s < 65) \<and>
   (rating_of s = Sell \<longleftrightarrow> 20 \<le> s \<and> s < 35) \<and>
   (rating_of s = StrongSell \<longleftrightarrow> s < 20) \<and>
   overallRating (fst (generateAIAnalysis draw toFixed data ti s0))
     = rating_of (fst (score_and_trend data ti))"
  by (simp add: rating_of_def ga_fields)

text \<open>
  C2. An RSI above 70 together with the confirmed uptrend
  \<open>price > sma20 > sma50 > sma200\<close> gives the score 50 - 20 + 25 = 55, reported as
  \<open>technicalScore\<close> 55, and the rating Hold, not Buy.
\<close>

theorem overbought_uptrend_is_hold:
  assumes "rsi ti > 70" and "currentPrice data > sma20 ti" and "sma20 ti > sma50 ti"
    and "sma50 ti > sma200 ti"
  shows "fst (score_and_trend data ti) = 50 - 20 + 25 \<and>
     technicalScore (fst (generateAIAnalysis draw toFixed data ti s0)) = 55 \<and>
     overallRating (fst (generateAIAnalysis draw toFixed data ti s0)) = Hold \<and>
     overallRating (fst (generateAIAnalysis draw toFixed data ti s0)) \<noteq> Buy"
proof -
  have s: "fst (score_and_trend data ti) = 55"
    using assms by (simp add: score_and_trend_def Let_def)
  have r: "js_round 55 = 55" by (simp add: js_round_def)
  show ?thesis by (simp add: ga_fields s r rating_of_def)
qed

theorem overbought_uptrend_is_hold_witness:
  "rsi \<lparr>rsi = 75, sma20 = 105, sma50 = 100, sma200 = 95, avgVolume = 1000\<rparr> > 70 \<and>
   currentPrice \<lparr>currentPrice = 110, changePercent = 1, volume = 1200, high52Week = 120,
                 low52Week = 80\<rparr> > (105::real) \<and>
   (105::real) > 100 \<and> (100::real) > 95 \<and>
   technicalScore (fst (generateAIAnalysis (\<lambda>n::nat. (1 / 2, Suc n)) (\<lambda>x d. [])
      \<lparr>currentPrice = 110, changePercent = 1, volume = 1200, high52Week = 120, low52Week = 80\<rparr>
      \<lparr>rsi = 75, sma20 = 105, sma50 = 100, sma200 = 95, avgVolume = 1000\<rparr> 0)) = 55 \<and>
   overallRating (fst (generateAIAnalysis (\<lambda>n::nat. (1 / 2, Suc n)) (\<lambda>x d. [])
      \<lparr>currentPrice = 110, changePercent = 1, volume = 1200, high52Week = 120, low52Week = 80\<rparr>
      \<lparr>rsi = 75, sma20 = 105, sma50 = 100, sma200 = 95, avgVolume = 1000\<rparr> 0)) = Hold"
  using overbought_uptrend_is_hold
    [of "\<lparr>rsi = 75, sma20 = 105, sma50 = 100, sma200 = 95, avgVolume = 1000\<rparr>"
        "\<lparr>currentPrice = 110, changePercent = 1, volume = 1200, high52Week = 120,
          low52Week = 80\<rparr>"
        "\<lambda>n::nat. (1 / 2, Suc n)" "\<lambda>x d. []" 0]
  by simp

text \<open>
  C10. The unclamped score is 50 plus one of 20, 0, -20 (the two RSI tests exclude each
  other) plus one of 25, 0, -25 (so do the two orderings), hence one of the nine values
  5, 25, 30, 45, 50, 55, 70, 75, 95. So the sentiment score lies between 0 and 100, the
  confidence between 20 and 95, and every sentiment label and every rating is the result
  for some input.
\<close>

theorem technical_score_nine_values:
  "fst (score_and_trend data ti) \<in> {5, 25, 30, 45, 50, 55, 70, 75, 95} \<and>
   fst (score_and_trend data ti) =
     50 + (if rsi ti < 30 then 20 else if rsi ti > 70 then - 20 else 0)
        + (if currentPrice data > sma20 ti \<and> sma20 ti > sma50 ti \<and> sma50 ti > sma200 ti then 25
           else if currentPrice data < sma20 ti \<and> sma20 ti < sma50 ti \<and> sma50 ti < sma200 ti
           then - 25 else 0) \<and>
   0 \<le> score (sentiment (fst (generateAIAnalysis draw toFixed data ti s0))) \<and>
   score (sentiment (fst (generateAIAnalysis draw toFixed data ti s0))) \<le> 100 \<and>
   20 \<le> confidence (fst (generateAIAnalysis draw toFixed data ti s0)) \<and>
   confidence (fst (generateAIAnalysis draw toFixed data ti s0)) \<le> 95 \<and>
   (\<forall>l. \<exists>data' ti'.
      label (sentiment (fst (generateAIAnalysis draw toFixed data' ti' s0))) = l) \<and>
   (\<forall>r. \<exists>data' ti'. overallRating (fst (generateAIAnalysis draw toFixed data' ti' s0)) = r)"
proof -
  have v: "fst (score_and_trend data ti) \<in> {5, 25, 30, 45, 50, 55, 70, 75, 95}"
    by (rule score_values)
  then have b: "0 \<le> fst (score_and_trend data ti) \<and> fst (score_and_trend data ti) \<le> 100"
    by auto
  have sc: "score (sentiment (fst (generateAIAnalysis draw toFixed data ti s0)))
              = fst (score_and_trend data ti)"
    by (simp add: ga_fields)
  have c: "20 \<le> confidence (fst (generateAIAnalysis draw toFixed data ti s0)) \<and>
           confidence (fst (generateAIAnalysis draw toFixed data ti s0)) \<le> 95"
    by (simp add: ga_fields)
  have l: "\<forall>l. \<exists>data' ti'.
      label (sentiment (fst (generateAIAnalysis draw toFixed data' ti' s0))) = l"
    using every_label_reached by (simp add: ga_fields)
  have r: "\<forall>r. \<exists>data' ti'. overallRating (fst (generateAIAnalysis draw toFixed data' ti' s0)) = r"
    using every_rating_reached by (simp add: ga_fields)
  from v score_decomposed[of data ti] b c l r show ?thesis
    unfolding sc by blast
qed

section \<open>Reproducibility under a fixed generator\<close>

lemma analysis_draws:
  "fst (generateAIAnalysis draw toFixed data ti s0) =
     (let ts = fst (score_and_trend data ti)
      in \<lparr>overallRating = rating_of ts,
          confidence = min (max ts 20) 95,
          riskLevel = risk_of (changePercent data),
          priceTarget = currentPrice data * (1 + (ts - 50) / 200),
          keyFactors = keyFactors_of toFixed data ti (snd (score_and_trend data ti)),
          sentiment = \<lparr>score = ts, label = label_of ts\<rparr>,
          technicalScore = js_round ts,
          fundamentalScore = js_round (ts * (9 / 10) + fst (draw s0) * 20),
          marketScore = js_round (ts * (11 / 10) + fst (draw (snd (draw s0))) * 15)\<rparr>)"
  by (simp add: generateAIAnalysis_def Let_def split: prod.splits)

lemma prediction_draws:
  "fst (makePrediction draw price ti a s0) =
     \<lparr>nextDay = price * (1 + (fst (draw s0) - 1 / 2) * (3 / 100)),
      nextWeek = price * (1 + (rsi ti - 50) / 1000
                   + (fst (draw (snd (draw s0))) - 1 / 2) * (5 / 100)),
      nextMonth = price * (1 + (rsi ti - 50) / 500
                   + (fst (draw (snd (draw (snd (draw s0))))) - 1 / 2) * (1 / 10)),
      predictionConfidence = confidence a,
      predictionTrend =
        (if score (sentiment a) \<ge> 60 then Bullish
         else if score (sentiment a) \<le> 40 then Bearish
         else Neutral)\<rparr>"
  by (simp add: makePrediction_def split: prod.splits)

lemma both_draws:
  "fst (analysisAndPrediction draw toFixed data ti s0) =
     (fst (generateAIAnalysis draw toFixed data ti s0),
      fst (makePrediction draw (currentPrice data) ti
             (fst (generateAIAnalysis draw toFixed data ti s0))
             (snd (generateAIAnalysis draw toFixed data ti s0))))"
  by (simp add: analysisAndPrediction_def split: prod.splits)

text \<open>
  C9. Two runs on the same input, each with a generator that answers 0.5 at every draw,
  give the same analysis record (all nine fields, \<open>fundamentalScore\<close> and \<open>marketScore\<close>
  among them) and the same prediction record; the generators may differ in everything but
  the numbers they draw, and start in any states.
\<close>

theorem fixed_draws_reproducible:
  fixes draw1 :: "'s \<Rightarrow> real \<times> 's" and draw2 :: "'t \<Rightarrow> real \<times> 't"
  assumes "\<forall>s. fst (draw1 s) = 1 / 2" and "\<forall>s. fst (draw2 s) = 1 / 2"
  shows "fst (generateAIAnalysis draw1 toFixed data ti s1)
           = fst (generateAIAnalysis draw2 toFixed data ti s2) \<and>
         fst (makePrediction draw1 price ti a s1) = fst (makePrediction draw2 price ti a s2) \<and>
         fst (analysisAndPrediction draw1 toFixed data ti s1)
           = fst (analysisAndPrediction draw2 toFixed data ti s2)"
proof -
  have e1: "fst (draw1 s) = 1 / 2" for s using assms(1) by blast
  have e2: "fst (draw2 s) = 1 / 2" for s using assms(2) by blast
  have g: "fst (generateAIAnalysis draw1 toFixed data ti u1)
             = fst (generateAIAnalysis draw2 toFixed data ti u2)" for u1 u2
    unfolding analysis_draws e1 e2 by (rule refl)
  have p: "fst (makePrediction draw1 price' ti a' u1)
             = fst (makePrediction draw2 price' ti a' u2)" for price' a' u1 u2
    unfolding prediction_draws e1 e2 by (rule refl)
  have b: "fst (analysisAndPrediction draw1 toFixed data ti s1)
             = fst (analysisAndPrediction draw2 toFixed data ti s2)"
    unfolding both_draws g[of s1 s2]
    by (simp only:
          p[of "currentPrice data" _ _ "snd (generateAIAnalysis draw2 toFixed data ti s2)"])
  from g[of s1 s2] p[of price a s1 s2] b show ?thesis by blast
qed

theorem fixed_draws_reproducible_witness:
  "fst (analysisAndPrediction (\<lambda>n::nat. (1 / 2, Suc n)) (\<lambda>x d. [])
      \<lparr>currentPrice = 110, changePercent = 1, volume = 1200, high52Week = 120, low52Week = 80\<rparr>
      \<lparr>rsi = 75, sma20 = 105, sma50 = 100, sma200 = 95, avgVolume = 1000\<rparr> 0)
   = fst (analysisAndPrediction (\<lambda>b::bool. (1 / 2, \<not> b)) (\<lambda>x d. [])
      \<lparr>currentPrice = 110, changePercent = 1, volume = 1200, high52Week = 120, low52Week = 80\<rparr>
      \<lparr>rsi = 75, sma20 = 105, sma50 = 100, sma200 = 95, avgVolume = 1000\<rparr> True)"
  using fixed_draws_reproducible
    [of "\<lambda>n::nat. (1 / 2, Suc n)" "\<lambda>b::bool. (1 / 2, \<not> b)" "\<lambda>x d. []"
        "\<lparr>currentPrice = 110, changePercent = 1, volume = 1200, high52Week = 120,
          low52Week = 80\<rparr>"
        "\<lparr>rsi = 75, sma20 = 105, sma50 = 100, sma200 = 95, avgVolume = 1000\<rparr>" 0 True]
  by simp

section \<open>Properties of the indicators\<close>

lemma jdiv_Some [simp]: "b \<noteq> 0 \<Longrightarrow> jdiv a b = Some (a / b)"
  by (simp add: jdiv_def)

lemma last_or_zero_eq: "last_or_zero prices = (if prices = [] then 0 else last prices)"
  by (simp add: last_or_zero_def js_or_def split: list.splits)

text \<open>
  C8. On a series with fewer than \<open>p\<close> elements \<open>calculateSMA\<close> and \<open>calculateEMA\<close> both
  return the last element, and 0 when the series is empty. The result is a number
  (\<open>Some\<close>): no division is reached and nothing is read out of range.
\<close>

theorem short_series_fallback:
  assumes "length prices < p"
  shows "calculateSMA prices p = Some (if prices = [] then 0 else last prices) \<and>
         calculateEMA prices p = Some (if prices = [] then 0 else last prices)"
  using assms by (simp add: calculateSMA_def calculateEMA_def last_or_zero_eq)

theorem short_series_fallback_witness:
  "length [3, 5 :: real] < 20 \<and> calculateSMA [3, 5] 20 = Some 5 \<and> calculateEMA [3, 5] 20 = Some 5 \<and>
   length ([] :: real list) < 20 \<and> calculateSMA [] 20 = Some 0 \<and> calculateEMA [] 20 = Some 0"
  using short_series_fallback[of "[3, 5]" 20] short_series_fallback[of "[]" 20] by simp

lemma ema_long:
  assumes "period \<le> length prices" and "prices \<noteq> []"
  shows "calculateEMA prices period
           = Some (ema_loop (2 / (real period + 1)) (hd prices) (tl prices))"
proof -
  have "real period + 1 \<noteq> 0" by linarith
  then show ?thesis using assms
    by (cases prices) (simp_all add: calculateEMA_def)
qed



lemma macd_short:
  "length prices < 26 \<Longrightarrow> calculateMACD prices = Some \<lparr>value = 0, signal = 0, histogram = 0\<rparr>"
  by (simp add: calculateMACD_def)

lemma macd_long:
  assumes "26 \<le> length prices"
    and "calculateEMA prices 12 = Some ema12" and "calculateEMA prices 26 = Some ema26"
  shows "calculateMACD prices =
           Some \<lparr>value = ema12 - ema26, signal = (ema12 - ema26) * (9 / 10),
                 histogram = (ema12 - ema26) - (ema12 - ema26) * (9 / 10)\<rparr>"
proof -
  have "\<not> length prices < 26" using assms(1) by simp
  then show ?thesis
    unfolding calculateMACD_def assms(2,3) by (simp only: if_False option.case Let_def)
qed

lemma ema_defined:
  assumes "26 \<le> length prices" and "period \<le> 26"
  shows "\<exists>e. calculateEMA prices period = Some e"
proof -
  from assms have "period \<le> length prices" and "prices \<noteq> []" by auto
  then show ?thesis using ema_long by blast
qed

text \<open>
  C3. \<open>calculateMACD\<close> returns the all-zero record on fewer than 26 prices; on 26 or more
  both averages are defined and the record is \<open>value = EMA 12 - EMA 26\<close>,
  \<open>signal = value * 0.9\<close>, \<open>histogram = value - signal\<close>.
\<close>

theorem macd_formula:
  "(length prices < 26 \<longrightarrow>
      calculateMACD prices = Some \<lparr>value = 0, signal = 0, histogram = 0\<rparr>) \<and>
   (26 \<le> length prices \<longrightarrow>
      (\<exists>ema12 ema26.
         calculateEMA prices 12 = Some ema12 \<and> calculateEMA prices 26 = Some ema26 \<and>
         calculateMACD prices =
           Some \<lparr>value = ema12 - ema26, signal = (ema12 - ema26) * (9 / 10),
                 histogram = (ema12 - ema26) - (ema12 - ema26) * (9 / 10)\<rparr>))"
proof (intro conjI impI)
  assume "length prices < 26"
  then show "calculateMACD prices = Some \<lparr>value = 0, signal = 0, histogram = 0\<rparr>"
    by (rule macd_short)
next
  assume l: "26 \<le> length prices"
  obtain a where a: "calculateEMA prices 12 = Some a" using ema_defined[OF l, of 12] by auto
  obtain b where b: "calculateEMA prices 26 = Some b" using ema_defined[OF l, of 26] by auto
  from macd_long[OF l a b] a b
  show "\<exists>ema12 ema26.
         calculateEMA prices 12 = Some ema12 \<and> calculateEMA prices 26 = Some ema26 \<and>
         calculateMACD prices =
           Some \<lparr>value = ema12 - ema26, signal = (ema12 - ema26) * (9 / 10),
                 histogram = (ema12 - ema26) - (ema12 - ema26) * (9 / 10)\<rparr>"
    by blast
qed

theorem macd_formula_witness:
  "length (replicate 5 (100::real)) < 26 \<and>
   calculateMACD (replicate 5 100) = Some \<lparr>value = 0, signal = 0, histogram = 0\<rparr> \<and>
   26 \<le> length (101 # replicate 25 (100::real)) \<and>
   (\<exists>ema12 ema26.
      calculateEMA (101 # replicate 25 100) 12 = Some ema12 \<and>
      calculateEMA (101 # replicate 25 100) 26 = Some ema26 \<and>
      calculateMACD (101 # replicate 25 100) =
        Some \<lparr>value = ema12 - ema26, signal = (ema12 - ema26) * (9 / 10),
              histogram = (ema12 - ema26) - (ema12 - ema26) * (9 / 10)\<rparr>)"
  using macd_formula[of "replicate 5 100"] macd_formula[of "101 # replicate 25 100"]
  by simp




subsection \<open>RSI\<close>









lemma deltas_Cons_Cons [simp]: "deltas (x # y # ys) = (y - x) # deltas (y # ys)"
  by (simp add: deltas_def)

lemma deltas_single [simp]: "deltas [x] = []" "deltas [] = []"
  by (simp_all add: deltas_def)

lemma length_deltas [simp]: "length (deltas prices) = length prices - 1"
  by (simp add: deltas_def)














subsection \<open>Bollinger bands\<close>










text \<open>
  The hypothesis on the prices is the input domain of the engine. Below zero the short
  series record is ordered the other way round.
\<close>

lemma bollinger_negative_price:
  "calculateBollingerBands [- 1] 20 2 = Some \<lparr>upper = - (102 / 100), middle = - 1, lower = - (98 / 100)\<rparr>"
  by (simp add: calculateBollingerBands_def calculateSMA_def last_or_zero_def js_or_def)

end
